theory Spec2Isabelle
  imports
    Complex_Main
    "HOL-Library.Product_Lexorder"
    "HOL-Library.List_Lexorder"
    "HOL-Library.Char_ord"
    "HOL-Library.Sublist"
begin

section \<open>Merchant dashboard: the load / validate / normalize / filter / aggregate pipeline\<close>

text \<open>
  The program is the script \<^verbatim>\<open>app.py\<close>. Its data pipeline is embedded stage by stage,
  one definition per statement (or chained call) of the script. The pandas primitives
  the script calls are written out as list functions:
  \<^item> a column with missing values is a list of \<open>option\<close>s (\<open>None\<close> is NaN / NaT);
  \<^item> an amount is a float64 value: a finite number, written as a rational (rounding and
    overflow of finite arithmetic are idealised), or an infinity; NaN is the null marker;
  \<^item> \<^verbatim>\<open>pd.to_datetime(..., errors="coerce")\<close> and \<^verbatim>\<open>pd.to_numeric(..., errors="coerce")\<close>
    are parameters of the model: any function from the cell text to an optional value.
\<close>

subsection \<open>Data\<close>

text \<open>A calendar date is (year, month, day); the lexicographic order of the triple is the
  order of Python's \<^verbatim>\<open>datetime.date\<close>.\<close>

type_synonym date = "nat \<times> nat \<times> nat"

text \<open>A timestamp: the calendar date and the time of day (nanoseconds after midnight).\<close>

record timestamp =
  ts_date :: date
  ts_time :: nat

text \<open>A row of the CSV as read: the three cells the script uses, as text. The first is the
  cell's \<^verbatim>\<open>str()\<close> form, which \<^verbatim>\<open>astype(str)\<close> yields.\<close>

record raw_row =
  merchant_cell :: string
  date_cell :: string
  amount_cell :: string

text \<open>A data frame as \<^verbatim>\<open>pd.read_csv\<close> returns it: the column names and the rows.
  \<open>path_col\<close> is the constant column \<^verbatim>\<open>__path__\<close> (absent until the loader sets it).\<close>

record frame =
  columns :: "string list"
  rows :: "raw_row list"
  path_col :: "string option"

text \<open>A float64 value that is not NaN. The cells \<^verbatim>\<open>inf\<close> and \<^verbatim>\<open>-inf\<close> of a CSV file parse
  to the infinities.\<close>

datatype fnum = Fin rat | PInf | NInf

text \<open>A row after the parse/clean step (lines 117-119).\<close>

record tx_row =
  merchant :: string
  tx_date :: "timestamp option"
  amount :: "fnum option"

text \<open>A row of the grouped frame (lines 137-144): the group key may be null, because the
  script groups with \<^verbatim>\<open>dropna=False\<close>.\<close>

record group_rec =
  gkey :: "date option"
  g_revenue :: "fnum option"
  g_orders :: int

text \<open>A row of \<^verbatim>\<open>daily\<close> after lines 147-149.\<close>

record daily_rec =
  date :: date
  revenue :: "fnum option"
  orders :: int
  aov :: "fnum option"

text \<open>How a run of the script ends before the dashboard is drawn: the exception of the
  loader, or \<^verbatim>\<open>st.error\<close> / \<^verbatim>\<open>st.warning\<close> followed by \<^verbatim>\<open>st.stop()\<close>.\<close>

datatype halt =
  FileNotFoundError string
  | StopError string
  | StopWarning string

subsection \<open>Parse / clean (lines 117-119)\<close>

text \<open>Python's \<^verbatim>\<open>str.isspace\<close>, a \<open>char\<close> being a code point below 256: the ASCII
  white space, U+0085 and U+00A0.\<close>

definition isspace :: "char \<Rightarrow> bool" where
  "isspace c = (of_char c \<in> {9, 10, 11, 12, 13, 28, 29, 30, 31, 32, 133, 160 :: nat})"

definition strip :: "string \<Rightarrow> string" where
  "strip s = rev (dropWhile isspace (rev (dropWhile isspace s)))"

text \<open>\<open>to_datetime\<close> sees the whole column as well as the cell (pandas may infer the format
  from the column); the result has one entry per row, as pandas guarantees.\<close>

definition normalize ::
  "(string list \<Rightarrow> string \<Rightarrow> timestamp option) \<Rightarrow> (string \<Rightarrow> fnum option) \<Rightarrow> frame \<Rightarrow> tx_row list" where
  "normalize to_datetime to_numeric tx =
     map (\<lambda>r. \<lparr>merchant = strip (merchant_cell r),
               tx_date = to_datetime (map date_cell (rows tx)) (date_cell r),
               amount = to_numeric (amount_cell r)\<rparr>)
         (rows tx)"

subsection \<open>Merchant filter (line 122)\<close>

definition merchant_filter :: "string \<Rightarrow> tx_row list \<Rightarrow> tx_row list" where
  "merchant_filter merchant_id tx = filter (\<lambda>r. merchant r = merchant_id) tx"

subsection \<open>Daily aggregation (lines 137-149)\<close>

text \<open>\<^verbatim>\<open>merchant_tx["Transaction Date"].dt.date\<close>\<close>

definition date_key :: "tx_row \<Rightarrow> date option" where
  "date_key r = map_option ts_date (tx_date r)"

text \<open>The groups of \<^verbatim>\<open>groupby(..., dropna=False)\<close>: the distinct keys in ascending order
  (\<^verbatim>\<open>sort=True\<close> is the default), the null key last.\<close>

definition group_keys :: "tx_row list \<Rightarrow> date option list" where
  "group_keys df =
     (let ks = map date_key df
      in map Some (sort (remdups (List.map_filter (\<lambda>k. k) ks)))
         @ (if None \<in> set ks then [None] else []))"

text \<open>Float addition: the sum of the two infinities of opposite sign is NaN.\<close>

fun fadd :: "fnum \<Rightarrow> fnum \<Rightarrow> fnum option" where
  "fadd (Fin a) (Fin b) = Some (Fin (a + b))"
| "fadd PInf NInf = None"
| "fadd NInf PInf = None"
| "fadd PInf b = Some PInf"
| "fadd a PInf = Some PInf"
| "fadd NInf b = Some NInf"
| "fadd a NInf = Some NInf"

text \<open>The aggregation \<^verbatim>\<open>"sum"\<close> skips the null entries and adds the others, from 0 (so it
  is 0 on a group with none left); once the sum is NaN it stays NaN. The aggregation
  \<^verbatim>\<open>"count"\<close> counts the non-null entries.\<close>

definition agg_sum :: "fnum option list \<Rightarrow> fnum option" where
  "agg_sum xs =
     fold (\<lambda>x acc. case acc of None \<Rightarrow> None | Some a \<Rightarrow> fadd a x)
          (List.map_filter (\<lambda>x. x) xs) (Some (Fin 0))"

definition agg_count :: "fnum option list \<Rightarrow> int" where
  "agg_count xs = int (length (filter (\<lambda>x. x \<noteq> None) xs))"

text \<open>\<^verbatim>\<open>.agg(revenue=("Settle Amount", "sum"), orders=("Settle Amount", "count"))\<close> on
  the group of key \<open>k\<close>, and the grouped frame: one row per group.\<close>

definition agg_group :: "tx_row list \<Rightarrow> date option \<Rightarrow> group_rec" where
  "agg_group df k =
     (let g = filter (\<lambda>r. date_key r = k) df
      in \<lparr>gkey = k,
          g_revenue = agg_sum (map amount g),
          g_orders = agg_count (map amount g)\<rparr>)"

definition groupby_agg :: "tx_row list \<Rightarrow> group_rec list" where
  "groupby_agg df = map (agg_group df) (group_keys df)"

text \<open>Lines 147-148: \<^verbatim>\<open>dropna(subset=["date"])\<close> removes the group of the null key,
  \<^verbatim>\<open>sort_values("date")\<close> orders the rest. A date at midnight stands for the timestamp
  that \<^verbatim>\<open>pd.to_datetime\<close> makes of it.\<close>

definition dropna_date :: "group_rec list \<Rightarrow> (date \<times> group_rec) list" where
  "dropna_date gs = List.map_filter (\<lambda>g. map_option (\<lambda>d. (d, g)) (gkey g)) gs"

definition sort_values_date :: "(date \<times> group_rec) list \<Rightarrow> (date \<times> group_rec) list" where
  "sort_values_date gs = sort_key fst gs"

text \<open>Line 149: \<^verbatim>\<open>(revenue / orders).where(orders > 0)\<close>. The division is the column-wise
  float division: it is computed for every row and raises nothing; a quotient by 0 is NaN
  or an infinity, a NaN revenue gives NaN. \<open>where\<close> keeps the value where the condition
  holds and puts the null marker elsewhere.\<close>

fun fdiv :: "fnum \<Rightarrow> int \<Rightarrow> fnum option" where
  "fdiv (Fin a) n =
     (if n \<noteq> 0 then Some (Fin (a / of_int n))
      else if a = 0 then None else if a > 0 then Some PInf else Some NInf)"
| "fdiv PInf n = (if n \<ge> 0 then Some PInf else Some NInf)"
| "fdiv NInf n = (if n \<ge> 0 then Some NInf else Some PInf)"

definition series_div :: "fnum option \<Rightarrow> int \<Rightarrow> fnum option" where
  "series_div x n = (case x of None \<Rightarrow> None | Some a \<Rightarrow> fdiv a n)"

definition where_cond :: "bool \<Rightarrow> 'a option \<Rightarrow> 'a option" where
  "where_cond c v = (if c then v else None)"

definition with_aov :: "date \<times> group_rec \<Rightarrow> daily_rec" where
  "with_aov p =
     (case p of (d, g) \<Rightarrow>
        \<lparr>date = d, revenue = g_revenue g, orders = g_orders g,
         aov = where_cond (g_orders g > 0) (series_div (g_revenue g) (g_orders g))\<rparr>)"

definition daily :: "tx_row list \<Rightarrow> daily_rec list" where
  "daily mtx = map with_aov (sort_values_date (dropna_date (groupby_agg mtx)))"

text \<open>For the statements below: the calendar dates of the rows whose date parsed.\<close>

definition row_dates :: "tx_row list \<Rightarrow> date list" where
  "row_dates df = List.map_filter date_key df"

subsection \<open>Min / max date and the range filter (lines 154-162)\<close>

text \<open>\<^verbatim>\<open>Series.min()\<close> / \<^verbatim>\<open>Series.max()\<close>: the least / greatest entry; on an empty
  datetime series the result is \<^verbatim>\<open>NaT\<close>, and \<^verbatim>\<open>NaT.date()\<close> is \<^verbatim>\<open>NaT\<close> again (\<open>None\<close>).\<close>

definition series_min :: "'a::linorder list \<Rightarrow> 'a option" where
  "series_min xs = (case xs of [] \<Rightarrow> None | x # ys \<Rightarrow> Some (fold min ys x))"

definition series_max :: "'a::linorder list \<Rightarrow> 'a option" where
  "series_max xs = (case xs of [] \<Rightarrow> None | x # ys \<Rightarrow> Some (fold max ys x))"

definition min_date :: "daily_rec list \<Rightarrow> date option" where
  "min_date d = series_min (map date d)"

definition max_date :: "daily_rec list \<Rightarrow> date option" where
  "max_date d = series_max (map date d)"

text \<open>Line 162 builds two boolean columns, combines them with \<^verbatim>\<open>&\<close> and indexes the frame
  with the result: a row is kept where the mask is true.\<close>

definition range_mask :: "date \<Rightarrow> date \<Rightarrow> daily_rec list \<Rightarrow> bool list" where
  "range_mask start_date end_date d =
     map2 (\<and>) (map (\<lambda>r. date r \<ge> start_date) d) (map (\<lambda>r. date r \<le> end_date) d)"

definition bool_index :: "'a list \<Rightarrow> bool list \<Rightarrow> 'a list" where
  "bool_index df keep = map fst (filter snd (zip df keep))"

definition range_filter :: "date \<Rightarrow> date \<Rightarrow> daily_rec list \<Rightarrow> daily_rec list" where
  "range_filter start_date end_date d = bool_index d (range_mask start_date end_date d)"

subsection \<open>Loader (lines 92-105)\<close>

definition candidates :: "string list" where
  "candidates = [''sample_merchant_transactions.csv'', ''data/sample_merchant_transactions.csv'']"

text \<open>\<^verbatim>\<open>df["__path__"] = p\<close>: the column is overwritten if the file has one of that name,
  appended otherwise.\<close>

definition set_path :: "string \<Rightarrow> frame \<Rightarrow> frame" where
  "set_path p df =
     df\<lparr>columns := (if ''__path__'' \<in> set (columns df) then columns df
                     else columns df @ [''__path__'']),
        path_col := Some p\<rparr>"

text \<open>The \<^verbatim>\<open>for\<close> loop with its \<^verbatim>\<open>try\<close>. \<open>read_csv p\<close> is \<open>None\<close> when \<^verbatim>\<open>pd.read_csv(p)\<close>
  raises. The first component of the result is the list of the locations read.\<close>

fun try_paths :: "(string \<Rightarrow> frame option) \<Rightarrow> string list \<Rightarrow> string list \<times> frame option" where
  "try_paths read_csv [] = ([], None)"
| "try_paths read_csv (p # ps) =
     (case read_csv p of
        Some df \<Rightarrow> ([p], Some (set_path p df))
      | None \<Rightarrow> (case try_paths read_csv ps of (tried, r) \<Rightarrow> (p # tried, r)))"

definition not_found_msg :: string where
  "not_found_msg =
     ''CSV not found. Place it at repo root as '' @ [CHR 0x27] @ ''sample_merchant_transactions.csv''
     @ [CHR 0x27] @ '' or under '' @ [CHR 0x27] @ ''data/'' @ [CHR 0x27] @ '' as '' @ [CHR 0x27]
     @ ''data/sample_merchant_transactions.csv'' @ [CHR 0x27] @ ''.''"

definition load_transactions :: "(string \<Rightarrow> frame option) \<Rightarrow> string list \<times> (halt + frame)" where
  "load_transactions read_csv =
     (case try_paths read_csv candidates of
        (tried, Some df) \<Rightarrow> (tried, Inr df)
      | (tried, None) \<Rightarrow> (tried, Inl (FileNotFoundError not_found_msg)))"

subsection \<open>Schema validation (lines 110-114)\<close>

definition needed :: "string set" where
  "needed = {''Merchant Number - Business Name'', ''Transaction Date'', ''Settle Amount''}"

definition missing :: "frame \<Rightarrow> string set" where
  "missing tx = needed - set (columns tx)"

text \<open>\<^verbatim>\<open>sep.join(xs)\<close>\<close>

fun join :: "string \<Rightarrow> string list \<Rightarrow> string" where
  "join sep [] = []"
| "join sep [x] = x"
| "join sep (x # y # ys) = x @ sep @ join sep (y # ys)"

definition missing_msg :: "string list \<Rightarrow> string" where
  "missing_msg names = ''Missing required column(s) in CSV: '' @ join '', '' names"

text \<open>\<^verbatim>\<open>sorted(missing)\<close> lists a set in ascending order; strings are compared
  lexicographically, character by character.\<close>

definition validate :: "frame \<Rightarrow> halt + frame" where
  "validate tx =
     (if missing tx \<noteq> {} then Inl (StopError (missing_msg (sorted_list_of_set (missing tx))))
      else Inr tx)"

subsection \<open>The script up to the date-range widget\<close>

definition no_tx_msg :: "string \<Rightarrow> string" where
  "no_tx_msg merchant_id =
     ''No transactions found for merchant: '' @ merchant_id @ [CHR 0x0A]
     @ ''Check that the Secrets '' @ [CHR 0x27] @ ''merchant_id'' @ [CHR 0x27]
     @ '' matches the CSV values in '' @ [CHR 0x27] @ ''Merchant Number - Business Name''
     @ [CHR 0x27] @ '' (exact case & spaces).''"

text \<open>The script's variable \<^verbatim>\<open>merchant_tx\<close> (lines 117-122).\<close>

definition merchant_tx ::
  "(string list \<Rightarrow> string \<Rightarrow> timestamp option) \<Rightarrow> (string \<Rightarrow> fnum option) \<Rightarrow> string \<Rightarrow> frame
     \<Rightarrow> tx_row list" where
  "merchant_tx to_datetime to_numeric merchant_id tx =
     merchant_filter merchant_id (normalize to_datetime to_numeric tx)"

text \<open>What the script has computed when it reaches \<^verbatim>\<open>st.sidebar.date_input\<close> (line 156).\<close>

record view =
  v_daily :: "daily_rec list"
  v_min_date :: "date option"
  v_max_date :: "date option"

definition script ::
  "(string \<Rightarrow> frame option) \<Rightarrow> (string list \<Rightarrow> string \<Rightarrow> timestamp option) \<Rightarrow> (string \<Rightarrow> fnum option)
     \<Rightarrow> string \<Rightarrow> halt + view" where
  "script read_csv to_datetime to_numeric merchant_id =
     (case snd (load_transactions read_csv) of
        Inl e \<Rightarrow> Inl e
      | Inr tx \<Rightarrow>
          (case validate tx of
             Inl e \<Rightarrow> Inl e
           | Inr tx \<Rightarrow>
               (let mtx = merchant_tx to_datetime to_numeric merchant_id tx
                in if mtx = [] then Inl (StopWarning (no_tx_msg merchant_id))
                   else (let d = daily mtx
                         in Inr \<lparr>v_daily = d, v_min_date = min_date d, v_max_date = max_date d\<rparr>))))"

subsection \<open>Sample tables\<close>

text \<open>The three rows of the specification's scenario, after the parse/clean step.\<close>

definition scenario_rows :: "tx_row list" where
  "scenario_rows =
     [\<lparr>merchant = ''M001'', tx_date = Some \<lparr>ts_date = (2024, 1, 1), ts_time = 0\<rparr>, amount = Some (Fin 100)\<rparr>,
      \<lparr>merchant = ''M001'', tx_date = Some \<lparr>ts_date = (2024, 1, 1), ts_time = 0\<rparr>, amount = Some (Fin 50)\<rparr>,
      \<lparr>merchant = ''M001'', tx_date = Some \<lparr>ts_date = (2024, 1, 2), ts_time = 0\<rparr>, amount = Some (Fin 0)\<rparr>]"

text \<open>Two rows of one day; the amount of the second did not parse.\<close>

definition null_amount_rows :: "tx_row list" where
  "null_amount_rows =
     [\<lparr>merchant = ''M001'', tx_date = Some \<lparr>ts_date = (2024, 1, 1), ts_time = 0\<rparr>, amount = Some (Fin 100)\<rparr>,
      \<lparr>merchant = ''M001'', tx_date = Some \<lparr>ts_date = (2024, 1, 1), ts_time = 0\<rparr>, amount = None\<rparr>]"

text \<open>Two rows of one day with the amounts \<^verbatim>\<open>inf\<close> and \<^verbatim>\<open>-inf\<close>.\<close>

definition inf_rows :: "tx_row list" where
  "inf_rows =
     [\<lparr>merchant = ''M001'', tx_date = Some \<lparr>ts_date = (2024, 1, 1), ts_time = 0\<rparr>, amount = Some PInf\<rparr>,
      \<lparr>merchant = ''M001'', tx_date = Some \<lparr>ts_date = (2024, 1, 1), ts_time = 0\<rparr>, amount = Some NInf\<rparr>]"

text \<open>A file with three rows: a row of M001 (its identifier padded with blanks), a row of
  M001 whose date does not parse, and a row of another merchant; parsers that read just
  the cells of this file; two states of the file system.\<close>

definition sample_frame :: frame where
  "sample_frame =
     \<lparr>columns = [''Merchant Number - Business Name'', ''Transaction Date'', ''Settle Amount''],
      rows = [\<lparr>merchant_cell = '' M001 '', date_cell = ''2024-01-01'', amount_cell = ''100''\<rparr>,
              \<lparr>merchant_cell = ''M001'', date_cell = ''not a date'', amount_cell = ''50''\<rparr>,
              \<lparr>merchant_cell = ''M002'', date_cell = ''2024-01-02'', amount_cell = ''7''\<rparr>],
      path_col = None\<rparr>"

definition sample_to_datetime :: "string list \<Rightarrow> string \<Rightarrow> timestamp option" where
  "sample_to_datetime col s =
     (if s = ''2024-01-01'' then Some \<lparr>ts_date = (2024, 1, 1), ts_time = 0\<rparr>
      else if s = ''2024-01-02'' then Some \<lparr>ts_date = (2024, 1, 2), ts_time = 0\<rparr>
      else None)"

definition sample_to_numeric :: "string \<Rightarrow> fnum option" where
  "sample_to_numeric s =
     (if s = ''100'' then Some (Fin 100) else if s = ''50'' then Some (Fin 50)
      else if s = ''7'' then Some (Fin 7) else None)"

definition data_only :: "string \<Rightarrow> frame option" where
  "data_only p = (if p = ''data/sample_merchant_transactions.csv'' then Some sample_frame else None)"


text \<open>A file in which no date of merchant M001 parses.\<close>

definition bad_dates_frame :: frame where
  "bad_dates_frame =
     \<lparr>columns = [''Merchant Number - Business Name'', ''Transaction Date'', ''Settle Amount''],
      rows = [\<lparr>merchant_cell = ''M001'', date_cell = ''not a date'', amount_cell = ''100''\<rparr>,
              \<lparr>merchant_cell = ''M001'', date_cell = ''??'', amount_cell = ''50''\<rparr>],
      path_col = None\<rparr>"

definition bad_dates_only :: "string \<Rightarrow> frame option" where
  "bad_dates_only p = (if p = ''sample_merchant_transactions.csv'' then Some bad_dates_frame else None)"

text \<open>A file without two of the required columns.\<close>

definition short_frame :: frame where
  "short_frame = \<lparr>columns = [''Transaction Date'', ''Notes''], rows = [], path_col = None\<rparr>"

text \<open>The daily frame of the scenario.\<close>

definition scenario_frame :: "daily_rec list" where
  "scenario_frame =
     [\<lparr>date = (2024, 1, 1), revenue = Some (Fin 150), orders = 2, aov = Some (Fin 75)\<rparr>,
      \<lparr>date = (2024, 1, 2), revenue = Some (Fin 0), orders = 1, aov = Some (Fin 0)\<rparr>]"



section \<open>Properties\<close>

subsection \<open>The shape of the daily frame\<close>

lemma map_filter_append: "List.map_filter f (xs @ ys) = List.map_filter f xs @ List.map_filter f ys"
  by (simp add: List.map_filter_def)

lemma map_filter_id_map: "List.map_filter (\<lambda>k. k) (map f xs) = List.map_filter f xs"
  by (induction xs) (simp_all add: map_filter_simps split: option.splits)



lemma gkey_agg_group: "gkey (agg_group df k) = k"
  by (simp add: agg_group_def Let_def)

lemma dropna_date_Some:
  "dropna_date (map (agg_group df) (map Some ds)) = map (\<lambda>d. (d, agg_group df (Some d))) ds"
  by (induction ds) (simp_all add: dropna_date_def map_filter_simps gkey_agg_group)

lemma dropna_date_None: "dropna_date [agg_group df None] = []"
  by (simp add: dropna_date_def map_filter_simps gkey_agg_group)

text \<open>After \<open>dropna\<close> the grouped frame has one row per date of \<open>row_dates\<close>, in ascending
  order; the row of the null key is gone.\<close>

lemma dropna_groupby:
  "dropna_date (groupby_agg df)
     = map (\<lambda>d. (d, agg_group df (Some d))) (sort (remdups (row_dates df)))"
proof -
  have "dropna_date (groupby_agg df)
      = dropna_date (map (agg_group df) (map Some (sort (remdups (row_dates df)))))
        @ dropna_date (map (agg_group df) (if None \<in> set (map date_key df) then [None] else []))"
    unfolding groupby_agg_def group_keys_def Let_def row_dates_def map_filter_id_map map_append
    by (simp only: dropna_date_def map_filter_append)
  also have "dropna_date (map (agg_group df) (if None \<in> set (map date_key df) then [None] else [])) = []"
    by (simp add: dropna_date_None) (simp add: dropna_date_def map_filter_simps)
  finally show ?thesis by (simp only: dropna_date_Some append_Nil2)
qed

text \<open>\<open>sort_values\<close> finds the frame in order already, so \<open>daily\<close> is one record per date.\<close>

lemma daily_eq:
  "daily df = map (\<lambda>d. with_aov (d, agg_group df (Some d))) (sort (remdups (row_dates df)))"
proof -
  let ?ds = "sort (remdups (row_dates df))"
  let ?xs = "map (\<lambda>d. (d, agg_group df (Some d))) ?ds"
  have "map fst ?xs = ?ds" by (simp add: o_def)
  then have "sorted (map fst ?xs)" by (metis sorted_sort)
  then have "sort_key fst ?xs = ?xs" by (rule sort_key_id_if_sorted)
  then show ?thesis by (simp add: daily_def sort_values_date_def dropna_groupby)
qed

lemma map_date_daily: "map date (daily df) = sort (remdups (row_dates df))"
  by (simp add: daily_eq o_def with_aov_def)

text \<open>The columns of a record of \<open>daily\<close>, read off the group of its date.\<close>

lemma daily_member:
  assumes "rec \<in> set (daily df)"
  shows "revenue rec = g_revenue (agg_group df (Some (date rec)))"
    and "orders rec = g_orders (agg_group df (Some (date rec)))"
    and "aov rec = where_cond (orders rec > 0) (series_div (revenue rec) (orders rec))"
proof -
  from assms obtain d where rec: "rec = with_aov (d, agg_group df (Some d))"
    by (auto simp: daily_eq)
  show "revenue rec = g_revenue (agg_group df (Some (date rec)))"
    by (simp add: rec with_aov_def)
  show "orders rec = g_orders (agg_group df (Some (date rec)))"
    by (simp add: rec with_aov_def)
  show "aov rec = where_cond (orders rec > 0) (series_div (revenue rec) (orders rec))"
    by (simp add: rec with_aov_def)
qed

text \<open>On finite amounts the sum is the sum of the numbers, a null amount adding 0.\<close>

lemma fold_fadd_finite:
  "fold (\<lambda>x acc. case acc of None \<Rightarrow> None | Some a \<Rightarrow> fadd a x) (map Fin qs) (Some (Fin s))
     = Some (Fin (s + sum_list qs))"
  by (induction qs arbitrary: s) (simp_all add: add.assoc)

lemma agg_sum_finite:
  "agg_sum (map (map_option Fin) qs) = Some (Fin (\<Sum>q\<leftarrow>qs. case q of None \<Rightarrow> 0 | Some a \<Rightarrow> a))"
proof -
  have "List.map_filter (\<lambda>x. x) (map (map_option Fin) qs) = map Fin (List.map_filter (\<lambda>x. x) qs)"
    by (induction qs) (simp_all add: map_filter_simps split: option.splits)
  moreover have "sum_list (List.map_filter (\<lambda>x. x) qs)
      = (\<Sum>q\<leftarrow>qs. case q of None \<Rightarrow> 0 | Some a \<Rightarrow> a)"
    by (induction qs) (simp_all add: map_filter_simps split: option.splits)
  ultimately show ?thesis
    using fold_fadd_finite [of "List.map_filter (\<lambda>x. x) qs" 0] by (simp add: agg_sum_def)
qed

lemma agg_count_amount:
  "agg_count (map amount g) = int (length (filter (\<lambda>r. amount r \<noteq> None) g))"
  by (induction g) (simp_all add: agg_count_def)

text \<open>What the two aggregations compute for the group of a date: the revenue is the sum
  of the amounts of the group that parsed, the order count is the number of rows of the
  group whose amount parsed.\<close>

lemma daily_revenue_orders:
  assumes "rec \<in> set (daily df)"
  shows "revenue rec = agg_sum (map amount (filter (\<lambda>r. date_key r = Some (date rec)) df))"
    and "orders rec =
           int (length (filter (\<lambda>r. amount r \<noteq> None)
                          (filter (\<lambda>r. date_key r = Some (date rec)) df)))"
  using daily_member(1,2)[OF assms]
  by (simp_all only: agg_group_def Let_def group_rec.simps agg_count_amount)

lemma fdiv_defined: "n > 0 \<Longrightarrow> \<exists>y. fdiv a n = Some y"
  by (cases a) simp_all

text \<open>Unfolding set for evaluating the aggregation on a sample table.\<close>

lemmas daily_defs = daily_def groupby_agg_def agg_group_def group_keys_def date_key_def
  agg_sum_def agg_count_def dropna_date_def sort_values_date_def with_aov_def where_cond_def
  series_div_def List.map_filter_def

subsection \<open>Claims about the daily aggregation\<close>

text \<open>
  C1. The claim: in every per-date group, \<open>orders\<close> is the number of rows of the group, a
  row counting even when its amount is null, and \<open>revenue\<close> is the sum of the amounts with
  null as 0. The script aggregates \<^verbatim>\<open>("Settle Amount", "count")\<close>, which counts the non-null
  amounts only: on two rows of one day, one with a null amount, the record has
  \<open>orders = 1\<close>, not 2 (the revenue, 100, is as claimed). The script's own comment
  (line 134) says \<^verbatim>\<open>orders = count rows\<close>.
\<close>

theorem orders_skips_null_amount:
  "length (filter (\<lambda>r. date_key r = Some (2024, 1, 1)) null_amount_rows) = 2
   \<and> daily (merchant_filter ''M001'' null_amount_rows)
       = [\<lparr>date = (2024, 1, 1), revenue = Some (Fin 100), orders = 1, aov = Some (Fin 100)\<rparr>]"
  by (simp add: null_amount_rows_def merchant_filter_def daily_defs)

text \<open>
  C2. The claim: in every record of the daily frame \<open>orders\<close> is a non-negative integer,
  \<open>aov\<close> is defined exactly when \<open>orders > 0\<close>, a defined \<open>aov\<close> is \<open>revenue / orders\<close>, and no
  division by zero occurs. The amounts \<^verbatim>\<open>inf\<close> and \<^verbatim>\<open>-inf\<close> on one day add up to NaN: the
  record has \<open>orders = 2\<close> and a null \<open>aov\<close>.
\<close>

theorem aov_null_with_orders:
  "daily (merchant_filter ''M001'' inf_rows)
     = [\<lparr>date = (2024, 1, 1), revenue = None, orders = 2, aov = None\<rparr>]"
  by (simp add: inf_rows_def merchant_filter_def daily_defs)

text \<open>
  C2, amended. In every record of the daily frame \<open>orders\<close> is a non-negative integer;
  \<open>aov\<close> is defined exactly when \<open>orders > 0\<close> and the revenue is not NaN; a defined \<open>aov\<close>
  is the float quotient \<open>revenue / orders\<close>, its divisor not zero; where \<open>orders = 0\<close> the
  \<open>aov\<close> is null (the quotient by zero, which raises nothing, is discarded).
\<close>

theorem daily_aov_defined:
  assumes "rec \<in> set (daily mtx)"
  shows "0 \<le> orders rec
    \<and> (aov rec \<noteq> None \<longleftrightarrow> orders rec > 0 \<and> revenue rec \<noteq> None)
    \<and> (aov rec \<noteq> None \<longrightarrow> orders rec \<noteq> 0 \<and> aov rec = series_div (revenue rec) (orders rec))
    \<and> (orders rec = 0 \<longrightarrow> aov rec = None)"
proof -
  have "0 \<le> g_orders (agg_group mtx (Some (date rec)))"
    by (simp add: agg_group_def Let_def agg_count_def)
  then have "0 \<le> orders rec"
    by (simp only: daily_member(2)[OF assms])
  then show ?thesis
    by (auto simp: daily_member(3)[OF assms] where_cond_def series_div_def fdiv_defined
        split: option.splits)
qed

theorem daily_aov_defined_witness:
  "\<lparr>date = (2024, 1, 1), revenue = Some (Fin 150), orders = 2, aov = Some (Fin 75)\<rparr>
     \<in> set (daily scenario_rows)
   \<and> (0::int) \<le> 2 \<and> Some (Fin 75) \<noteq> None \<and> Some (Fin 75) = series_div (Some (Fin 150)) 2"
proof -
  have h: "\<lparr>date = (2024, 1, 1), revenue = Some (Fin 150), orders = 2, aov = Some (Fin 75)\<rparr>
      \<in> set (daily scenario_rows)"
    by (simp add: scenario_rows_def daily_defs)
  show ?thesis using h daily_aov_defined [OF h] by (simp add: series_div_def)
qed

text \<open>
  C3. The scenario: the rows (M001, 2024-01-01, 100), (M001, 2024-01-01, 50),
  (M001, 2024-01-02, 0), filtered to M001 and aggregated by day, give exactly
  (2024-01-01, revenue 150, orders 2, aov 75), (2024-01-02, revenue 0, orders 1, aov 0).
\<close>

theorem scenario_daily:
  "daily (merchant_filter ''M001'' scenario_rows)
     = [\<lparr>date = (2024, 1, 1), revenue = Some (Fin 150), orders = 2, aov = Some (Fin 75)\<rparr>,
        \<lparr>date = (2024, 1, 2), revenue = Some (Fin 0), orders = 1, aov = Some (Fin 0)\<rparr>]"
  by (simp add: scenario_rows_def merchant_filter_def daily_defs)


subsection \<open>The range filter\<close>

lemma bool_index_map2:
  "bool_index xs (map2 (\<and>) (map p xs) (map q xs)) = filter (\<lambda>r. p r \<and> q r) xs"
  by (induction xs) (simp_all add: bool_index_def)

lemma range_filter_eq:
  "range_filter s e d = filter (\<lambda>r. s \<le> date r \<and> date r \<le> e) d"
  unfolding range_filter_def range_mask_def by (rule bool_index_map2)

lemma series_min_Min: "series_min xs = Some m \<Longrightarrow> xs \<noteq> [] \<and> m = Min (set xs)"
  by (cases xs) (auto simp: series_min_def Min.set_eq_fold [symmetric])

lemma series_max_Max: "series_max xs = Some m \<Longrightarrow> xs \<noteq> [] \<and> m = Max (set xs)"
  by (cases xs) (auto simp: series_max_def Max.set_eq_fold [symmetric])

lemma range_filter_noop:
  assumes "min_date d = Some s" "max_date d = Some e"
  shows "range_filter s e d = d"
proof -
  have s: "s = Min (set (map date d))" and e: "e = Max (set (map date d))"
    using assms series_min_Min series_max_Max unfolding min_date_def max_date_def by blast+
  have "\<forall>r\<in>set d. s \<le> date r \<and> date r \<le> e"
    unfolding s e by (simp)
  then show ?thesis unfolding range_filter_eq by (simp add: filter_id_conv)
qed

text \<open>
  C7. For every daily frame (sorted or not) and every inclusive window, the range filter
  returns exactly the records whose date lies in the window, as a subsequence of the
  frame (order preserved); when the window is the frame's own minimum and maximum date,
  the filter returns the frame unchanged.
\<close>

theorem range_filter_window:
  "range_filter start_date end_date d = filter (\<lambda>r. start_date \<le> date r \<and> date r \<le> end_date) d
   \<and> subseq (range_filter start_date end_date d) d
   \<and> (min_date d = Some start_date \<and> max_date d = Some end_date \<longrightarrow> range_filter start_date end_date d = d)"
  using range_filter_noop[of d start_date end_date]
  by (simp add: range_filter_eq)

theorem range_filter_window_witness:
  "min_date scenario_frame = Some (2024, 1, 1) \<and> max_date scenario_frame = Some (2024, 1, 2)
   \<and> range_filter (2024, 1, 1) (2024, 1, 2) scenario_frame = scenario_frame
   \<and> subseq (range_filter (2024, 1, 2) (2024, 1, 2) scenario_frame) scenario_frame"
proof -
  have h: "min_date scenario_frame = Some (2024, 1, 1) \<and> max_date scenario_frame = Some (2024, 1, 2)"
    by (simp add: scenario_frame_def min_date_def max_date_def series_min_def series_max_def
        min_def max_def)
  show ?thesis
    using h range_filter_window [of "(2024, 1, 1)" "(2024, 1, 2)" scenario_frame]
      range_filter_window [of "(2024, 1, 2)" "(2024, 1, 2)" scenario_frame]
    by blast
qed

subsection \<open>The loader\<close>



lemma try_paths_None_iff:
  "snd (try_paths read_csv ps) = None \<longleftrightarrow> (\<forall>p\<in>set ps. read_csv p = None)"
  by (induction ps) (auto split: option.splits prod.splits)





subsection \<open>Schema validation\<close>

lemma finite_missing: "finite (missing tx)"
  by (simp add: missing_def needed_def)

lemma missing_empty_iff: "missing tx = {} \<longleftrightarrow> needed \<subseteq> set (columns tx)"
  by (auto simp: missing_def)

text \<open>\<^verbatim>\<open>sep.join(xs)\<close> written out: the first item, then every further item behind a
  separator; every item occurs in the result.\<close>

lemma join_concat:
  "join sep xs = (case xs of [] \<Rightarrow> [] | n # ns \<Rightarrow> n @ concat (map (\<lambda>m. sep @ m) ns))"
  by (induction sep xs rule: join.induct) simp_all

lemma sublist_join: "x \<in> set xs \<Longrightarrow> sublist x (join sep xs)"
proof (induction sep xs rule: join.induct)
  case (1 sep)
  then show ?case by simp
next
  case (2 sep y)
  then show ?case by simp
next
  case (3 sep y z zs)
  show ?case
  proof (cases "x = y")
    case True
    have "sublist y ([] @ y @ (sep @ join sep (z # zs)))" by (rule sublist_appendI)
    with True show ?thesis by simp
  next
    case False
    with 3 have "sublist x (join sep (z # zs))" by simp
    then have "sublist x ((y @ sep) @ join sep (z # zs))" by (simp only: sublist_append) simp
    then show ?thesis by simp
  qed
qed

text \<open>
  C9. If a required column name is absent, the schema check stops with the error message
  \<^verbatim>\<open>Missing required column(s) in CSV: \<close> followed by the missing names, and only those,
  in ascending order, each once, separated by a comma and a blank (so every missing name
  occurs in the message); if none is absent, the table passes through unchanged.
\<close>

theorem validate_schema:
  "(needed \<subseteq> set (columns tx) \<longrightarrow> validate tx = Inr tx)
   \<and> (\<not> needed \<subseteq> set (columns tx) \<longrightarrow>
        validate tx
          = Inl (StopError
                  (''Missing required column(s) in CSV: ''
                   @ (case sorted_list_of_set (needed - set (columns tx)) of
                        [] \<Rightarrow> []
                      | n # ns \<Rightarrow> n @ concat (map (\<lambda>m. '', '' @ m) ns))))
        \<and> set (sorted_list_of_set (needed - set (columns tx))) = needed - set (columns tx)
        \<and> sorted (sorted_list_of_set (needed - set (columns tx)))
        \<and> distinct (sorted_list_of_set (needed - set (columns tx)))
        \<and> (\<forall>n\<in>needed - set (columns tx). \<forall>msg. validate tx = Inl (StopError msg) \<longrightarrow> sublist n msg))"
proof (intro conjI impI)
  assume "needed \<subseteq> set (columns tx)"
  then show "validate tx = Inr tx" by (simp add: validate_def missing_empty_iff)
next
  assume a: "\<not> needed \<subseteq> set (columns tx)"
  have v: "validate tx = Inl (StopError (missing_msg (sorted_list_of_set (missing tx))))"
    using a by (simp add: validate_def missing_empty_iff)
  then show "validate tx
          = Inl (StopError
                  (''Missing required column(s) in CSV: ''
                   @ (case sorted_list_of_set (needed - set (columns tx)) of
                        [] \<Rightarrow> []
                      | n # ns \<Rightarrow> n @ concat (map (\<lambda>m. '', '' @ m) ns))))"
    by (simp only: missing_msg_def join_concat missing_def)
  show s: "set (sorted_list_of_set (needed - set (columns tx))) = needed - set (columns tx)"
    using finite_missing [of tx] by (simp add: missing_def)
  show "sorted (sorted_list_of_set (needed - set (columns tx)))" by simp
  show "distinct (sorted_list_of_set (needed - set (columns tx)))" by simp
  show "\<forall>n\<in>needed - set (columns tx). \<forall>msg. validate tx = Inl (StopError msg) \<longrightarrow> sublist n msg"
  proof (intro ballI allI impI)
    fix n msg
    assume n: "n \<in> needed - set (columns tx)" and "validate tx = Inl (StopError msg)"
    with v have msg: "msg = missing_msg (sorted_list_of_set (missing tx))" by simp
    from n s have "n \<in> set (sorted_list_of_set (missing tx))" by (simp add: missing_def)
    then have "sublist n (join '', '' (sorted_list_of_set (missing tx)))" by (rule sublist_join)
    then show "sublist n msg" unfolding msg missing_msg_def by (simp only: sublist_append) simp
  qed
qed

theorem validate_schema_witness:
  "needed \<subseteq> set (columns sample_frame) \<and> validate sample_frame = Inr sample_frame
   \<and> \<not> needed \<subseteq> set (columns short_frame)
   \<and> validate short_frame
       = Inl (StopError ''Missing required column(s) in CSV: Merchant Number - Business Name, Settle Amount'')
   \<and> sublist ''Settle Amount''
        ''Missing required column(s) in CSV: Merchant Number - Business Name, Settle Amount''"
proof -
  have h1: "needed \<subseteq> set (columns sample_frame)"
    by (simp add: needed_def sample_frame_def)
  have h2: "\<not> needed \<subseteq> set (columns short_frame)"
    by (simp add: needed_def short_frame_def)
  have h3: "''Settle Amount'' \<in> needed - set (columns short_frame)"
    by (simp add: needed_def short_frame_def)
  have m: "''Missing required column(s) in CSV: ''
         @ (case sorted_list_of_set (needed - set (columns short_frame)) of
              [] \<Rightarrow> []
            | n # ns \<Rightarrow> n @ concat (map (\<lambda>m. '', '' @ m) ns))
      = ''Missing required column(s) in CSV: Merchant Number - Business Name, Settle Amount''"
    by code_simp
  from h1 validate_schema [of sample_frame] have 1: "validate sample_frame = Inr sample_frame"
    by blast
  from h2 validate_schema [of short_frame] m
  have 2: "validate short_frame
      = Inl (StopError ''Missing required column(s) in CSV: Merchant Number - Business Name, Settle Amount'')"
    by simp
  from h2 h3 2 validate_schema [of short_frame]
  have 3: "sublist ''Settle Amount''
      ''Missing required column(s) in CSV: Merchant Number - Business Name, Settle Amount''"
    by blast
  from h1 h2 1 2 3 show ?thesis by simp
qed

subsection \<open>The script as a whole\<close>

text \<open>Unfolding sets for evaluating the script on the sample tables.\<close>

lemmas sample_defs = sample_frame_def sample_to_datetime_def sample_to_numeric_def data_only_def
  merchant_tx_def normalize_def merchant_filter_def strip_def isspace_def
  load_transactions_def candidates_def set_path_def needed_def

lemmas bad_defs = bad_dates_frame_def bad_dates_only_def sample_to_datetime_def sample_to_numeric_def
  merchant_tx_def normalize_def merchant_filter_def strip_def isspace_def
  load_transactions_def candidates_def set_path_def needed_def

lemma daily_Nil: "daily [] = []"
  by (simp add: daily_eq row_dates_def map_filter_simps)

lemma sublist_no_tx_msg: "sublist merchant_id (no_tx_msg merchant_id)"
  unfolding no_tx_msg_def by (rule sublist_appendI)

text \<open>
  C6. When the table loads, has the required columns and has no row whose cleaned
  identifier equals the merchant identifier, the script stops with the warning
  \<open>no_tx_msg\<close>, which names the merchant; the aggregate of the (empty) selection is
  empty. The run ends in \<^verbatim>\<open>st.warning\<close> and \<^verbatim>\<open>st.stop()\<close>, not in an exception.
\<close>

theorem no_transactions_warning:
  "snd (load_transactions read_csv) = Inr tx \<and> needed \<subseteq> set (columns tx)
     \<and> merchant_tx to_datetime to_numeric merchant_id tx = []
   \<longrightarrow> script read_csv to_datetime to_numeric merchant_id = Inl (StopWarning (no_tx_msg merchant_id))
       \<and> daily (merchant_tx to_datetime to_numeric merchant_id tx) = []
       \<and> sublist merchant_id (no_tx_msg merchant_id)"
  by (simp add: script_def validate_def missing_empty_iff daily_Nil sublist_no_tx_msg)


theorem no_transactions_warning_witness:
  "snd (load_transactions data_only) = Inr (set_path ''data/sample_merchant_transactions.csv'' sample_frame)
   \<and> merchant_tx sample_to_datetime sample_to_numeric ''M003''
        (set_path ''data/sample_merchant_transactions.csv'' sample_frame) = []
   \<and> script data_only sample_to_datetime sample_to_numeric ''M003''
       = Inl (StopWarning (no_tx_msg ''M003''))"
proof -
  let ?tx = "set_path ''data/sample_merchant_transactions.csv'' sample_frame"
  have h: "snd (load_transactions data_only) = Inr ?tx \<and> needed \<subseteq> set (columns ?tx)
      \<and> merchant_tx sample_to_datetime sample_to_numeric ''M003'' ?tx = []"
    by (simp add: sample_defs)
  show ?thesis
    using h no_transactions_warning [of data_only "?tx" sample_to_datetime sample_to_numeric "''M003''"]
    by blast
qed




lemma script_reaches_widget:
  assumes "snd (load_transactions read_csv) = Inr tx" "needed \<subseteq> set (columns tx)"
    "merchant_tx to_datetime to_numeric merchant_id tx \<noteq> []"
  shows "script read_csv to_datetime to_numeric merchant_id
     = Inr \<lparr>v_daily = daily (merchant_tx to_datetime to_numeric merchant_id tx),
            v_min_date = min_date (daily (merchant_tx to_datetime to_numeric merchant_id tx)),
            v_max_date = max_date (daily (merchant_tx to_datetime to_numeric merchant_id tx))\<rparr>"
  using assms by (simp add: script_def validate_def missing_empty_iff Let_def)

lemma series_min_nonempty: "xs \<noteq> [] \<Longrightarrow> series_min xs = Some (Min (set xs))"
  by (cases xs) (simp_all add: series_min_def Min.set_eq_fold [symmetric])

lemma series_max_nonempty: "xs \<noteq> [] \<Longrightarrow> series_max xs = Some (Max (set xs))"
  by (cases xs) (simp_all add: series_max_def Max.set_eq_fold [symmetric])

lemma row_dates_Nil_iff: "row_dates df = [] \<longleftrightarrow> (\<forall>r\<in>set df. tx_date r = None)"
  by (induction df) (auto simp: row_dates_def map_filter_simps date_key_def split: option.splits)

lemma daily_Nil_iff: "daily df = [] \<longleftrightarrow> row_dates df = []"
proof -
  have "daily df = [] \<longleftrightarrow> map date (daily df) = []" by simp
  also have "\<dots> \<longleftrightarrow> set (row_dates df) = {}"
    unfolding map_date_daily by (metis set_empty set_remdups set_sort)
  finally show ?thesis by simp
qed





text \<open>
  C5. The claim: on a non-empty merchant selection in which no date parsed, the daily frame
  is empty and the min/max-date extraction raises an exception. The first half holds; the
  extraction does not raise: \<^verbatim>\<open>min()\<close> of the empty date column is \<^verbatim>\<open>NaT\<close> and
  \<^verbatim>\<open>NaT.date()\<close> is \<^verbatim>\<open>NaT\<close>, so the script reaches the widget (line 156) with both bounds
  null, without warning. The run below ends in \<open>Inr\<close>, not in an exception.
\<close>

theorem extraction_on_unparseable_dates:
  "map tx_date (merchant_tx sample_to_datetime sample_to_numeric ''M001''
        (set_path ''sample_merchant_transactions.csv'' bad_dates_frame)) = [None, None]
   \<and> script bad_dates_only sample_to_datetime sample_to_numeric ''M001''
       = Inr \<lparr>v_daily = [], v_min_date = None, v_max_date = None\<rparr>"
  by (simp add: bad_defs script_def validate_def missing_def daily_defs
      min_date_def max_date_def series_min_def series_max_def)

text \<open>
  C5, amended. If no date of the merchant's rows parsed, the daily frame is empty and both
  extracted bounds are the null date, and the script (table loaded, columns present,
  selection non-empty) reaches the widget with them, no warning raised. If some date
  parsed, the daily frame is non-empty and the bounds are the least and the greatest
  date of the merchant's rows.
\<close>

theorem min_max_date_extraction:
  "((\<forall>r\<in>set mtx. tx_date r = None)
      \<longrightarrow> daily mtx = [] \<and> min_date (daily mtx) = None \<and> max_date (daily mtx) = None)
   \<and> ((\<exists>r\<in>set mtx. tx_date r \<noteq> None)
      \<longrightarrow> daily mtx \<noteq> []
          \<and> min_date (daily mtx) = Some (Min (set (row_dates mtx)))
          \<and> max_date (daily mtx) = Some (Max (set (row_dates mtx))))
   \<and> (snd (load_transactions read_csv) = Inr tx \<and> needed \<subseteq> set (columns tx)
        \<and> merchant_tx to_datetime to_numeric merchant_id tx \<noteq> []
        \<and> (\<forall>r\<in>set (merchant_tx to_datetime to_numeric merchant_id tx). tx_date r = None)
      \<longrightarrow> script read_csv to_datetime to_numeric merchant_id
            = Inr \<lparr>v_daily = [], v_min_date = None, v_max_date = None\<rparr>)"
proof (intro conjI impI)
  assume a: "\<forall>r\<in>set mtx. tx_date r = None"
  then show d: "daily mtx = []" by (simp add: daily_Nil_iff row_dates_Nil_iff)
  show "min_date (daily mtx) = None" by (simp add: d min_date_def series_min_def)
  show "max_date (daily mtx) = None" by (simp add: d max_date_def series_max_def)
next
  assume a: "\<exists>r\<in>set mtx. tx_date r \<noteq> None"
  then have ne: "row_dates mtx \<noteq> []" by (simp add: row_dates_Nil_iff)
  then show d: "daily mtx \<noteq> []" by (simp add: daily_Nil_iff)
  then have m: "map date (daily mtx) \<noteq> []" by simp
  have s: "set (map date (daily mtx)) = set (row_dates mtx)"
    unfolding map_date_daily by simp
  show "min_date (daily mtx) = Some (Min (set (row_dates mtx)))"
    unfolding min_date_def using series_min_nonempty [OF m] s by simp
  show "max_date (daily mtx) = Some (Max (set (row_dates mtx)))"
    unfolding max_date_def using series_max_nonempty [OF m] s by simp
next
  let ?m = "merchant_tx to_datetime to_numeric merchant_id tx"
  assume a: "snd (load_transactions read_csv) = Inr tx \<and> needed \<subseteq> set (columns tx)
        \<and> ?m \<noteq> [] \<and> (\<forall>r\<in>set ?m. tx_date r = None)"
  then have d: "daily ?m = []" by (simp add: daily_Nil_iff row_dates_Nil_iff)
  from a have "script read_csv to_datetime to_numeric merchant_id
     = Inr \<lparr>v_daily = daily ?m, v_min_date = min_date (daily ?m), v_max_date = max_date (daily ?m)\<rparr>"
    by (simp add: script_reaches_widget)
  then show "script read_csv to_datetime to_numeric merchant_id
            = Inr \<lparr>v_daily = [], v_min_date = None, v_max_date = None\<rparr>"
    by (simp add: d min_date_def max_date_def series_min_def series_max_def)
qed

theorem min_max_date_extraction_witness:
  "merchant_tx sample_to_datetime sample_to_numeric ''M001''
        (set_path ''sample_merchant_transactions.csv'' bad_dates_frame)
     = [\<lparr>merchant = ''M001'', tx_date = None, amount = Some (Fin 100)\<rparr>,
        \<lparr>merchant = ''M001'', tx_date = None, amount = Some (Fin 50)\<rparr>]
   \<and> script bad_dates_only sample_to_datetime sample_to_numeric ''M001''
       = Inr \<lparr>v_daily = [], v_min_date = None, v_max_date = None\<rparr>
   \<and> min_date (daily scenario_rows) = Some (2024, 1, 1)
   \<and> max_date (daily scenario_rows) = Some (2024, 1, 2)"
proof -
  let ?tx = "set_path ''sample_merchant_transactions.csv'' bad_dates_frame"
  let ?m = "merchant_tx sample_to_datetime sample_to_numeric ''M001'' ?tx"
  have h1: "snd (load_transactions bad_dates_only) = Inr ?tx \<and> needed \<subseteq> set (columns ?tx)
      \<and> ?m \<noteq> [] \<and> (\<forall>r\<in>set ?m. tx_date r = None)"
    by (simp add: bad_defs)
  have h2: "\<exists>r\<in>set scenario_rows. tx_date r \<noteq> None"
    by (simp add: scenario_rows_def)
  have r: "Min (set (row_dates scenario_rows)) = (2024, 1, 1)
      \<and> Max (set (row_dates scenario_rows)) = (2024, 1, 2)"
    by (simp add: scenario_rows_def row_dates_def map_filter_simps date_key_def min_def max_def)
  from h1 min_max_date_extraction
    [of ?m bad_dates_only ?tx sample_to_datetime sample_to_numeric "''M001''"]
  have 1: "script bad_dates_only sample_to_datetime sample_to_numeric ''M001''
       = Inr \<lparr>v_daily = [], v_min_date = None, v_max_date = None\<rparr>"
    by blast
  from h2 min_max_date_extraction
    [of scenario_rows bad_dates_only ?tx sample_to_datetime sample_to_numeric "''M001''"]
  have 2: "min_date (daily scenario_rows) = Some (Min (set (row_dates scenario_rows)))
      \<and> max_date (daily scenario_rows) = Some (Max (set (row_dates scenario_rows)))"
    by blast
  have m: "?m = [\<lparr>merchant = ''M001'', tx_date = None, amount = Some (Fin 100)\<rparr>,
                 \<lparr>merchant = ''M001'', tx_date = None, amount = Some (Fin 50)\<rparr>]"
    by (simp add: bad_defs)
  from m 1 2 r show ?thesis by simp
qed

end
